theory Spec2Isabelle
  imports Complex_Main
begin

section \<open>The oscilloscope of the Moog synthesizer page\<close>

text \<open>
  The development embeds \<^verbatim>\<open>drawWaveform\<close> of
  \<^verbatim>\<open>src/app/prototypes/moog-synth/page.tsx\<close> (lines 41 to 162).
  A JavaScript \<^verbatim>\<open>number\<close> is modelled by a real number: \<^verbatim>\<open>Math.sin\<close> is
  \<open>sin\<close>, \<^verbatim>\<open>Math.PI\<close> is \<open>pi\<close>, \<^verbatim>\<open>Math.sign\<close> is \<open>sgn\<close>,
  \<^verbatim>\<open>Math.abs\<close> is \<open>abs\<close> and \<^verbatim>\<open>Math.max\<close> is \<open>max\<close>. Rounding of
  IEEE doubles, NaN and the infinities are outside the model.
  The values read from the environment are parameters: the canvas (its \<^verbatim>\<open>width\<close> and
  \<^verbatim>\<open>height\<close> are unsigned integers of the DOM), the values of \<^verbatim>\<open>activeNotesRef\<close> in
  insertion order, the React state \<^verbatim>\<open>osc1Freq\<close>, \<^verbatim>\<open>waveform\<close>, \<^verbatim>\<open>filterCutoff\<close>, and
  \<^verbatim>\<open>time = Date.now() * 0.001\<close>.
\<close>

subsection \<open>Numbers\<close>

text \<open>
  The remainder operator \<^verbatim>\<open>%\<close> of JavaScript truncates the quotient towards zero, so
  the result has the sign of the dividend. (A zero divisor gives NaN in JavaScript; the
  renderer only divides by \<open>1\<close>.)
\<close>

definition js_rem :: "real \<Rightarrow> real \<Rightarrow> real" where
  "js_rem x y = x - y * of_int (if 0 \<le> x / y then \<lfloor>x / y\<rfloor> else \<lceil>x / y\<rceil>)"

subsection \<open>Sample synthesis\<close>

definition samples :: nat where
  "samples = 900"

definition windowSize :: int where
  "windowSize = 6"

text \<open>Line 86: the phase \<^verbatim>\<open>t\<close> of sample \<open>i\<close> for one frequency.\<close>

definition phase :: "nat \<Rightarrow> real \<Rightarrow> real \<Rightarrow> real" where
  "phase i time freq = (real i / real samples) * pi * 4 + time * freq * 0.01"

text \<open>
  Lines 88 to 104: the \<^verbatim>\<open>switch\<close> on \<^verbatim>\<open>waveform\<close>. At run time the waveform is a
  string, compared with the four case labels in turn; any other value takes the
  \<^verbatim>\<open>default\<close> branch.
\<close>

definition sample :: "string \<Rightarrow> real \<Rightarrow> real" where
  "sample waveform t =
     (if waveform = ''sine'' then sin t
      else if waveform = ''square'' then sgn (sin t)
      else if waveform = ''sawtooth'' then 2 * js_rem (t / (2 * pi)) 1 - 1
      else if waveform = ''triangle'' then 2 * abs (2 * js_rem (t / (2 * pi)) 1 - 1) - 1
      else sin t)"

text \<open>Lines 77 and 78: the frequencies the scope mixes.\<close>

definition scopeFrequencies :: "real list \<Rightarrow> real \<Rightarrow> real list" where
  "scopeFrequencies activeNoteFrequencies osc1Freq =
     (if length activeNoteFrequencies > 0 then activeNoteFrequencies else [osc1Freq])"

text \<open>Lines 84 to 107: the inner loop adds one sample per frequency to \<^verbatim>\<open>y\<close>, from \<open>0\<close>.\<close>

definition mix :: "string \<Rightarrow> real \<Rightarrow> real list \<Rightarrow> nat \<Rightarrow> real" where
  "mix waveform time freqs i =
     fold (\<lambda>freq y. y + sample waveform (phase i time freq)) freqs 0"

text \<open>Line 110: \<^verbatim>\<open>y /= Math.max(1, scopeFrequencies.length)\<close>.\<close>

definition normalized :: "string \<Rightarrow> real \<Rightarrow> real list \<Rightarrow> nat \<Rightarrow> real" where
  "normalized waveform time freqs i =
     mix waveform time freqs i / max 1 (real (length freqs))"

text \<open>Lines 113 and 114: the visual attenuation by the filter cutoff.\<close>

definition filterEffect :: "real \<Rightarrow> real" where
  "filterEffect filterCutoff = max 0 (1 - (filterCutoff / 5000))"

definition rawAt :: "string \<Rightarrow> real \<Rightarrow> real \<Rightarrow> real list \<Rightarrow> nat \<Rightarrow> real" where
  "rawAt waveform filterCutoff time freqs i =
     normalized waveform time freqs i * (1 - filterEffect filterCutoff * 0.5)"

text \<open>Lines 77 to 117: the buffer \<^verbatim>\<open>raw\<close>, filled for \<open>i\<close> from \<open>0\<close> to \<open>samples\<close>.\<close>

definition raw :: "real list \<Rightarrow> real \<Rightarrow> string \<Rightarrow> real \<Rightarrow> real \<Rightarrow> real list" where
  "raw activeNoteFrequencies osc1Freq waveform filterCutoff time =
     map (rawAt waveform filterCutoff time (scopeFrequencies activeNoteFrequencies osc1Freq))
       [0 ..< samples + 1]"

subsection \<open>Smoothing\<close>

text \<open>
  Lines 126 to 132: one turn of the loop over \<open>k\<close>, on the pair of \<^verbatim>\<open>sum\<close> and
  \<^verbatim>\<open>count\<close>.
\<close>

definition windowStep :: "real list \<Rightarrow> nat \<Rightarrow> int \<Rightarrow> real \<times> nat \<Rightarrow> real \<times> nat" where
  "windowStep buf i k acc =
     (let idx = int i + k in
      if idx \<ge> 0 \<and> idx \<le> int samples
      then (fst acc + buf ! nat idx, snd acc + 1)
      else acc)"

text \<open>The test of line 128, as a predicate of the offset \<open>k\<close>.\<close>

definition inWindow :: "nat \<Rightarrow> int \<Rightarrow> bool" where
  "inWindow i k \<longleftrightarrow> 0 \<le> int i + k \<and> int i + k \<le> int samples"

definition smoothedAt :: "real list \<Rightarrow> nat \<Rightarrow> real" where
  "smoothedAt buf i =
     (let acc = fold (windowStep buf i) [- windowSize .. windowSize] (0, 0)
      in fst acc / max 1 (real (snd acc)))"

definition smoothed :: "real list \<Rightarrow> real list" where
  "smoothed buf = map (smoothedAt buf) [0 ..< samples + 1]"

subsection \<open>Drawing\<close>

record canvas =
  width :: nat
  height :: nat

text \<open>
  What a frame does to its environment, in order: the calls and assignments on the 2D
  context, and the request for the next animation frame.
\<close>

datatype effect =
    ClearRect real real real real
  | FillStyle string
  | FillRect real real real real
  | StrokeStyle string
  | LineWidth real
  | LineJoin string
  | LineCap string
  | BeginPath
  | MoveTo real real
  | LineTo real real
  | QuadraticCurveTo real real real real
  | Stroke
  | RequestAnimationFrame

text \<open>Lines 137 and 138.\<close>

definition toCanvasY :: "canvas \<Rightarrow> real \<Rightarrow> real" where
  "toCanvasY cv y = (real (height cv) / 2) + (y * (real (height cv) / 2) * 0.8)"

text \<open>Lines 54 to 62: the grid of eleven horizontal lines.\<close>

definition gridLine :: "canvas \<Rightarrow> nat \<Rightarrow> effect list" where
  "gridLine cv i =
     (let y = (real (height cv) / 10) * real i
      in [BeginPath, MoveTo 0 y, LineTo (real (width cv)) y, Stroke])"

definition grid :: "canvas \<Rightarrow> effect list" where
  "grid cv = [StrokeStyle ''#333'', LineWidth 1] @ concat (map (gridLine cv) [0 ..< 11])"

text \<open>Lines 144 to 152: one quadratic segment of the curve.\<close>

definition segment :: "canvas \<Rightarrow> real list \<Rightarrow> nat \<Rightarrow> effect" where
  "segment cv sm i =
     (let x = (real (width cv) / real samples) * real i;
          y = toCanvasY cv (sm ! i);
          xNext = (real (width cv) / real samples) * real (i + 1);
          yNext = toCanvasY cv (sm ! (i + 1))
      in QuadraticCurveTo x y ((x + xNext) / 2) ((y + yNext) / 2))"

text \<open>Lines 140 to 159: the path through the smoothed samples.\<close>

definition curve :: "canvas \<Rightarrow> real list \<Rightarrow> effect list" where
  "curve cv sm =
     [MoveTo 0 (toCanvasY cv (sm ! 0))]
     @ map (segment cv sm) [1 ..< samples]
     @ [LineTo (real (width cv)) (toCanvasY cv (sm ! samples)), Stroke]"

text \<open>
  Lines 41 to 162: one call of \<^verbatim>\<open>drawWaveform\<close>. With no active note the function
  returns at line 50, after the background is filled; otherwise it runs to line 161,
  where it requests the next frame.
\<close>

definition drawWaveform ::
  "canvas \<Rightarrow> real list \<Rightarrow> real \<Rightarrow> string \<Rightarrow> real \<Rightarrow> real \<Rightarrow> effect list" where
  "drawWaveform cv activeNoteFrequencies osc1Freq waveform filterCutoff time =
     ClearRect 0 0 (real (width cv)) (real (height cv)) #
     (let shouldVisualize = length activeNoteFrequencies > 0 in
      if \<not> shouldVisualize
      then [FillStyle ''#1a1a1a'', FillRect 0 0 (real (width cv)) (real (height cv))]
      else grid cv
         @ [StrokeStyle ''#00ff88'', LineWidth 2, LineJoin ''round'', LineCap ''round'',
            BeginPath]
         @ curve cv (smoothed (raw activeNoteFrequencies osc1Freq waveform filterCutoff time))
         @ [RequestAnimationFrame])"

text \<open>
  Lines 44 to 117 within a call: the buffer \<^verbatim>\<open>raw\<close> that one call of
  \<^verbatim>\<open>drawWaveform\<close> fills. With no active note the call returns at line 50, before
  the buffer is allocated at line 81, and there is none.
\<close>

definition frameRaw :: "real list \<Rightarrow> real \<Rightarrow> string \<Rightarrow> real \<Rightarrow> real \<Rightarrow> real list option" where
  "frameRaw activeNoteFrequencies osc1Freq waveform filterCutoff time =
     (let shouldVisualize = length activeNoteFrequencies > 0 in
      if \<not> shouldVisualize
      then None
      else Some (raw activeNoteFrequencies osc1Freq waveform filterCutoff time))"

text \<open>
  The vertical coordinates that an effect gives to the path: the end point of a move or
  a line, the control point and the end point of a quadratic segment.
\<close>

fun plottedYs :: "effect \<Rightarrow> real list" where
  "plottedYs (MoveTo x y) = [y]"
| "plottedYs (LineTo x y) = [y]"
| "plottedYs (QuadraticCurveTo cpx cpy x y) = [cpy, y]"
| "plottedYs e = []"

section \<open>Properties\<close>

subsection \<open>The waveform functions\<close>

text \<open>
  C7. For the square waveform, at every phase \<open>t\<close> with \<open>sin t = 0\<close> the synthesized
  sample is \<open>0\<close>, neither \<open>1\<close> nor \<open>-1\<close>; the phase of sample \<open>0\<close> at clock \<open>0\<close> is such
  a phase, for every frequency.
\<close>

theorem square_zero_crossing:
  "(sin t = 0 \<longrightarrow> sample ''square'' t = 0)
   \<and> phase 0 0 freq = 0
   \<and> sample ''square'' (phase 0 0 freq) = 0"
  by (simp add: sample_def phase_def)

theorem square_zero_crossing_witness:
  "sin (0::real) = 0 \<and> sample ''square'' 0 = 0 \<and> sample ''square'' 0 \<noteq> 1
   \<and> sample ''square'' 0 \<noteq> - 1"
  using square_zero_crossing [of 0 440] by simp

text \<open>
  C8. For a waveform outside the four recognised names, synthesis takes the default
  branch and yields the sine sample \<open>sin t\<close>, the value of the \<open>sine\<close> branch.
\<close>

theorem unknown_waveform_is_sine:
  "waveform \<notin> {''sine'', ''square'', ''sawtooth'', ''triangle''}
   \<Longrightarrow> sample waveform t = sin t \<and> sample waveform t = sample ''sine'' t"
  by (simp add: sample_def)

theorem unknown_waveform_is_sine_witness:
  "''noise'' \<notin> {''sine'', ''square'', ''sawtooth'', ''triangle''}
   \<and> sample ''noise'' 0 = 0 \<and> sample ''noise'' 0 = sample ''sine'' 0"
  using unknown_waveform_is_sine [of "''noise''" 0] by simp

subsection \<open>Mixing\<close>

lemma js_rem_one_range:
  assumes "0 \<le> x"
  shows "0 \<le> js_rem x 1" and "js_rem x 1 < 1"
proof -
  have e: "js_rem x 1 = x - of_int \<lfloor>x\<rfloor>"
    using assms by (simp add: js_rem_def)
  show "0 \<le> js_rem x 1" unfolding e by linarith
  show "js_rem x 1 < 1" unfolding e by linarith
qed

lemma phase_nonneg:
  assumes "0 \<le> time" and "0 \<le> freq"
  shows "0 \<le> phase i time freq"
  using assms by (simp add: phase_def)

lemma sample_range:
  assumes "0 \<le> t"
  shows "\<bar>sample waveform t\<bar> \<le> 1"
proof -
  have q: "0 \<le> t / (2 * pi)" using assms by simp
  define r where "r = js_rem (t / (2 * pi)) 1"
  have r: "0 \<le> r" "r < 1"
    using js_rem_one_range [OF q] by (simp_all add: r_def)
  have sq: "\<bar>sgn (sin t)\<bar> \<le> 1" by (simp add: abs_sgn_eq)
  have saw: "\<bar>2 * r - 1\<bar> \<le> 1" using r by (simp add: abs_le_iff)
  have tri: "\<bar>2 * \<bar>2 * r - 1\<bar> - 1\<bar> \<le> 1" using saw by (simp add: abs_le_iff)
  show ?thesis
    unfolding sample_def r_def [symmetric] using sq saw tri by simp
qed

lemma mix_acc_range:
  assumes "\<forall>f \<in> set freqs. \<bar>g f\<bar> \<le> 1"
  shows "\<bar>fold (\<lambda>freq y. y + g freq) freqs a\<bar> \<le> \<bar>a\<bar> + real (length freqs)"
  using assms
proof (induction freqs arbitrary: a)
  case Nil
  then show ?case by simp
next
  case (Cons f fs)
  have "\<bar>fold (\<lambda>freq y. y + g freq) fs (a + g f)\<bar> \<le> \<bar>a + g f\<bar> + real (length fs)"
    using Cons by simp
  moreover have "\<bar>a + g f\<bar> \<le> \<bar>a\<bar> + 1" using Cons.prems by (simp add: abs_le_iff) linarith
  ultimately show ?case by simp
qed

lemma normalized_range:
  assumes "\<forall>f \<in> set freqs. 0 \<le> f" and "0 \<le> time"
  shows "\<bar>normalized waveform time freqs i\<bar> \<le> 1"
proof -
  have "\<forall>f \<in> set freqs. \<bar>sample waveform (phase i time f)\<bar> \<le> 1"
    using assms by (simp add: sample_range phase_nonneg)
  from mix_acc_range [OF this, of 0]
  have m: "\<bar>mix waveform time freqs i\<bar> \<le> real (length freqs)"
    by (simp add: mix_def)
  have "real (length freqs) \<le> max 1 (real (length freqs))" by simp
  with m have "\<bar>mix waveform time freqs i\<bar> \<le> max 1 (real (length freqs))" by linarith
  moreover have "0 < max 1 (real (length freqs))" by simp
  ultimately show ?thesis
    unfolding normalized_def by (simp add: abs_divide del: max.bounded_iff)
qed

text \<open>
  C3. For a non-empty list of active frequencies, all nonnegative, a nonnegative clock,
  any waveform and any index \<open>i\<close> from \<open>0\<close> to \<open>samples\<close>, the mixed sample before
  the filter attenuation (the sum of the samples of the frequencies, divided by
  \<open>max 1 count\<close>) lies between \<open>-1\<close> and \<open>1\<close>.
\<close>

theorem mixed_sample_in_unit_range:
  assumes "activeNoteFrequencies \<noteq> []"
    and "\<forall>f \<in> set activeNoteFrequencies. 0 \<le> f"
    and "0 \<le> time"
    and "i \<le> samples"
  shows "- 1 \<le> normalized waveform time (scopeFrequencies activeNoteFrequencies osc1Freq) i
       \<and> normalized waveform time (scopeFrequencies activeNoteFrequencies osc1Freq) i \<le> 1"
proof -
  have "scopeFrequencies activeNoteFrequencies osc1Freq = activeNoteFrequencies"
    using assms(1) by (simp add: scopeFrequencies_def)
  then show ?thesis
    using normalized_range [OF assms(2,3), of waveform i] by (simp add: abs_le_iff)
qed

theorem mixed_sample_in_unit_range_witness:
  "[440, 660] \<noteq> ([]::real list) \<and> (0::real) \<le> 440 \<and> (0::real) \<le> 660 \<and> (0::real) \<le> 0
   \<and> (0::nat) \<le> samples
   \<and> normalized ''square'' 0 (scopeFrequencies [440, 660] 220) 0 = 0
   \<and> - 1 \<le> normalized ''square'' 0 (scopeFrequencies [440, 660] 220) 0
   \<and> normalized ''square'' 0 (scopeFrequencies [440, 660] 220) 0 \<le> 1"
  using mixed_sample_in_unit_range [of "[440, 660]" 0 0 "''square''" 220]
  by (simp add: normalized_def mix_def scopeFrequencies_def sample_def phase_def)


subsection \<open>The moving average\<close>

lemma windowStep_inWindow:
  "windowStep buf i k acc =
     (if inWindow i k then (fst acc + buf ! nat (int i + k), snd acc + 1) else acc)"
  by (simp add: windowStep_def inWindow_def Let_def)

lemma fold_windowStep:
  "fold (windowStep buf i) ks acc =
     (fst acc + sum_list (map (\<lambda>k. buf ! nat (int i + k)) (filter (inWindow i) ks)),
      snd acc + length (filter (inWindow i) ks))"
proof (induction ks arbitrary: acc)
  case Nil
  then show ?case by simp
next
  case (Cons k ks)
  show ?case
    by (simp add: Cons.IH) (simp add: windowStep_inWindow)
qed

lemma window_image:
  "(\<lambda>k. nat (int i + k)) ` {k. - windowSize \<le> k \<and> k \<le> windowSize \<and> inWindow i k}
     = {j. j \<le> samples \<and> int i - windowSize \<le> int j \<and> int j \<le> int i + windowSize}"
  (is "?h ` ?K = ?J")
proof (rule set_eqI, rule iffI)
  fix j assume "j \<in> ?h ` ?K"
  then obtain k where k: "k \<in> ?K" and j: "j = nat (int i + k)" by blast
  from k have "0 \<le> int i + k" "int i + k \<le> int samples" "- windowSize \<le> k" "k \<le> windowSize"
    by (simp_all add: inWindow_def)
  with j show "j \<in> ?J" by simp
next
  fix j assume "j \<in> ?J"
  then have a: "j \<le> samples" "int i - windowSize \<le> int j" "int j \<le> int i + windowSize"
    by simp_all
  define k where "k = int j - int i"
  have "k \<in> ?K" using a by (simp add: k_def inWindow_def)
  moreover have "j = ?h k" by (simp add: k_def)
  ultimately show "j \<in> ?h ` ?K" by blast
qed

lemma window_inj:
  "inj_on (\<lambda>k. nat (int i + k)) {k. - windowSize \<le> k \<and> k \<le> windowSize \<and> inWindow i k}"
proof (rule inj_onI)
  fix x y
  assume "x \<in> {k. - windowSize \<le> k \<and> k \<le> windowSize \<and> inWindow i k}"
    and "y \<in> {k. - windowSize \<le> k \<and> k \<le> windowSize \<and> inWindow i k}"
    and e: "nat (int i + x) = nat (int i + y)"
  then have "0 \<le> int i + x" and "0 \<le> int i + y" by (simp_all add: inWindow_def)
  with e have "int i + x = int i + y" by (simp add: eq_nat_nat_iff)
  then show "x = y" by simp
qed

lemma smoothedAt_mean:
  assumes "i \<le> samples"
  defines "J \<equiv> {j. j \<le> samples \<and> int i - windowSize \<le> int j \<and> int j \<le> int i + windowSize}"
  shows "smoothedAt buf i = (\<Sum>j \<in> J. buf ! j) / real (card J)"
proof -
  let ?h = "\<lambda>k. nat (int i + k)"
  let ?K = "{k. - windowSize \<le> k \<and> k \<le> windowSize \<and> inWindow i k}"
  let ?ks = "filter (inWindow i) [- windowSize .. windowSize]"
  have d: "distinct ?ks" by simp
  have s: "set ?ks = ?K" by auto
  have J: "J = ?h ` ?K" unfolding J_def by (rule window_image [symmetric])
  have sum: "sum_list (map (\<lambda>k. buf ! ?h k) ?ks) = (\<Sum>j \<in> J. buf ! j)"
  proof -
    have "sum_list (map (\<lambda>k. buf ! ?h k) ?ks) = (\<Sum>k \<in> ?K. buf ! ?h k)"
      using sum_list_distinct_conv_sum_set [OF d, of "\<lambda>k. buf ! ?h k"] s by simp
    also have "\<dots> = (\<Sum>j \<in> ?h ` ?K. buf ! j)"
      using sum.reindex [OF window_inj, of "\<lambda>j. buf ! j" i] by (simp add: o_def)
    finally show ?thesis by (simp add: J)
  qed
  have len: "length ?ks = card J"
  proof -
    have "length ?ks = card ?K" using distinct_card [OF d] s by simp
    also have "\<dots> = card (?h ` ?K)" by (rule card_image [OF window_inj, symmetric])
    finally show ?thesis by (simp add: J)
  qed
  have "i \<in> J" using assms(1) by (simp add: J_def windowSize_def)
  moreover have "finite J" unfolding J_def by simp
  ultimately have "card J \<noteq> 0" by auto
  then have m: "max 1 (real (card J)) = real (card J)" by (simp add: max_def)
  show ?thesis
    by (simp add: smoothedAt_def Let_def fold_windowStep sum len m)
qed

lemma window_interval:
  "{j. j \<le> samples \<and> int i - windowSize \<le> int j \<and> int j \<le> int i + windowSize}
     = {i - 6 .. min samples (i + 6)}"
  by (auto simp: windowSize_def)

text \<open>
  C5. For a raw buffer of \<open>samples + 1\<close> values and an index \<open>i\<close> from \<open>0\<close> to
  \<open>samples\<close>, \<open>smoothed ! i\<close> is the arithmetic mean of \<open>raw ! j\<close> over exactly the
  \<open>j\<close> between \<open>i - 6\<close> and \<open>i + 6\<close> that lie between \<open>0\<close> and \<open>samples\<close>: the
  window is cut at the ends of the buffer (it then holds fewer than 13 terms), nothing
  wraps around and nothing is padded. The smoothed buffer is as long as the raw one.
\<close>

theorem smoothed_is_clipped_mean:
  assumes "length buf = samples + 1" and "i \<le> samples"
  shows "length (smoothed buf) = length buf
     \<and> smoothed buf ! i =
         (\<Sum>j \<in> {j. j \<le> samples \<and> int i - windowSize \<le> int j \<and> int j \<le> int i + windowSize}. buf ! j)
         / real (card {j. j \<le> samples \<and> int i - windowSize \<le> int j \<and> int j \<le> int i + windowSize})
     \<and> card {j. j \<le> samples \<and> int i - windowSize \<le> int j \<and> int j \<le> int i + windowSize}
         = min samples (i + 6) + 1 - (i - 6)
     \<and> windowSize = 6"
proof -
  have n: "smoothed buf ! i = smoothedAt buf i"
    using assms(2) unfolding smoothed_def by (simp add: nth_map_upt del: upt_Suc)
  have l: "length (smoothed buf) = length buf"
    using assms(1) unfolding smoothed_def by simp
  have c: "card {j. j \<le> samples \<and> int i - windowSize \<le> int j \<and> int j \<le> int i + windowSize}
         = min samples (i + 6) + 1 - (i - 6)"
    unfolding window_interval by simp
  show ?thesis
    using n l c smoothedAt_mean [OF assms(2), of buf] by (simp add: windowSize_def)
qed

theorem smoothed_is_clipped_mean_witness:
  "length (replicate (samples + 1) (1::real)) = samples + 1 \<and> (0::nat) \<le> samples
   \<and> length (smoothed (replicate (samples + 1) 1)) = samples + 1
   \<and> smoothed (replicate (samples + 1) 1) ! 0 = 1
   \<and> card {j. j \<le> samples \<and> int 0 - windowSize \<le> int j \<and> int j \<le> int 0 + windowSize} = 7"
proof -
  let ?buf = "replicate (samples + 1) (1::real)"
  let ?J = "{j. j \<le> samples \<and> int 0 - windowSize \<le> int j \<and> int j \<le> int 0 + windowSize}"
  have h1: "length ?buf = samples + 1" by simp
  have h2: "(0::nat) \<le> samples" by simp
  note t = smoothed_is_clipped_mean [OF h1 h2]
  from t have l: "length (smoothed ?buf) = length ?buf" by blast
  from t have m: "smoothed ?buf ! 0 = (\<Sum>j \<in> ?J. ?buf ! j) / real (card ?J)" by blast
  from t have "card ?J = min samples (0 + 6) + 1 - (0 - 6)" by blast
  then have c: "card ?J = 7" by (simp add: samples_def)
  have r: "?buf ! j = 1" if "j \<le> samples" for j
    by (rule nth_replicate) (use that in simp)
  have "(\<Sum>j \<in> ?J. ?buf ! j) = (\<Sum>j \<in> ?J. 1)"
    by (rule sum.cong [OF refl]) (rule r, blast)
  also have "\<dots> = real (card ?J)" by simp
  finally have "smoothed ?buf ! 0 = real (card ?J) / real (card ?J)"
    using m by (simp only:)
  moreover have "real (card ?J) / real (card ?J) = 1" unfolding c by simp
  ultimately have v: "smoothed ?buf ! 0 = 1" by (simp only:)
  from l h1 have l': "length (smoothed ?buf) = samples + 1" by (simp only:)
  show ?thesis
    using h1 h2 l' v c by blast
qed



subsection \<open>The filter attenuation\<close>

text \<open>
  C4, as the code has it. The multiplier applied to each sample is
  \<open>1 - max 0 (1 - filterCutoff / 5000) * 0.5\<close>. For \<open>filterCutoff \<ge> 5000\<close> it is \<open>1\<close>
  (no attenuation) and at \<open>filterCutoff = 0\<close> it is \<open>0.5\<close>. For \<open>filterCutoff \<le> 0\<close>
  it is \<open>0.5 + filterCutoff / 10000\<close>: the code does not clamp \<open>filterEffect\<close> from
  above, so a negative cutoff attenuates by more than one half.
\<close>

theorem filter_attenuation:
  "rawAt waveform filterCutoff time freqs i
     = normalized waveform time freqs i * (1 - max 0 (1 - filterCutoff / 5000) * 0.5)
   \<and> (5000 \<le> filterCutoff \<longrightarrow>
        1 - filterEffect filterCutoff * 0.5 = 1
        \<and> rawAt waveform filterCutoff time freqs i = normalized waveform time freqs i)
   \<and> 1 - filterEffect 0 * 0.5 = 0.5
   \<and> rawAt waveform 0 time freqs i = normalized waveform time freqs i * 0.5
   \<and> (filterCutoff \<le> 0 \<longrightarrow> 1 - filterEffect filterCutoff * 0.5 = 0.5 + filterCutoff / 10000)"
proof -
  have a: "rawAt waveform filterCutoff time freqs i
     = normalized waveform time freqs i * (1 - max 0 (1 - filterCutoff / 5000) * 0.5)"
    by (simp add: rawAt_def filterEffect_def)
  have b: "filterEffect filterCutoff = 0" if "5000 \<le> filterCutoff"
    using that by (simp add: filterEffect_def)
  have c: "filterEffect 0 = 1"
    by (simp add: filterEffect_def)
  have d: "1 - filterEffect filterCutoff * 0.5 = 0.5 + filterCutoff / 10000"
    if "filterCutoff \<le> 0"
    using that by (simp add: filterEffect_def field_simps)
  have e: "rawAt waveform filterCutoff time freqs i = normalized waveform time freqs i"
    if "5000 \<le> filterCutoff"
    using that by (simp add: rawAt_def b)
  have f: "rawAt waveform 0 time freqs i = normalized waveform time freqs i * 0.5"
    by (simp add: rawAt_def c)
  have g: "1 - filterEffect 0 * 0.5 = (0.5::real)"
    by (simp add: c)
  have h: "1 - filterEffect filterCutoff * 0.5 = (1::real)" if "5000 \<le> filterCutoff"
    using that by (simp add: b)
  show ?thesis
    using a d e f g h by blast
qed

theorem filter_attenuation_witness:
  "(5000::real) \<le> 6000 \<and> 1 - filterEffect 6000 * 0.5 = 1
   \<and> rawAt ''sine'' 6000 0 [440] 0 = normalized ''sine'' 0 [440] 0
   \<and> (- 2500::real) \<le> 0 \<and> 1 - filterEffect (- 2500) * 0.5 = 0.25"
  using filter_attenuation [of "''sine''" 6000 0 "[440]" 0]
    filter_attenuation [of "''sine''" "- 2500" 0 "[440]" 0]
  by simp

text \<open>
  At the cutoff \<open>-5000\<close> the multiplier is \<open>0\<close>, not one half.
\<close>

theorem negative_cutoff_counterexample:
  "(- 5000::real) \<le> 0 \<and> 1 - filterEffect (- 5000) * 0.5 = 0
   \<and> 1 - filterEffect (- 5000) * 0.5 \<noteq> 0.5"
  by (simp add: filterEffect_def)

subsection \<open>Fallback\<close>

lemma drawWaveform_frameRaw:
  "drawWaveform cv activeNoteFrequencies osc1Freq waveform filterCutoff time =
     ClearRect 0 0 (real (width cv)) (real (height cv)) #
     (case frameRaw activeNoteFrequencies osc1Freq waveform filterCutoff time of
        None \<Rightarrow> [FillStyle ''#1a1a1a'', FillRect 0 0 (real (width cv)) (real (height cv))]
      | Some buf \<Rightarrow>
          grid cv
          @ [StrokeStyle ''#00ff88'', LineWidth 2, LineJoin ''round'', LineCap ''round'',
             BeginPath]
          @ curve cv (smoothed buf)
          @ [RequestAnimationFrame])"
  by (simp add: drawWaveform_def frameRaw_def)

text \<open>
  C9, as the code has it. For every fallback \<open>f\<close>, waveform, cutoff and clock, a call
  with no active frequency returns before the sample synthesis and fills no raw buffer,
  while a call with the single active frequency \<open>f\<close> fills the raw buffer of \<open>f\<close>
  alone, whatever the fallback \<open>g\<close>. So the empty set with the fallback \<open>f\<close> does not
  behave as the set of \<open>f\<close> alone, and the two frames differ.
\<close>

theorem idle_call_synthesizes_nothing:
  "frameRaw [] f waveform filterCutoff time = None
   \<and> frameRaw [f] g waveform filterCutoff time
       = Some (map (rawAt waveform filterCutoff time [f]) [0 ..< samples + 1])
   \<and> drawWaveform cv [] f waveform filterCutoff time
       \<noteq> drawWaveform cv [f] g waveform filterCutoff time"
proof -
  have a: "frameRaw [] f waveform filterCutoff time = None"
    by (simp add: frameRaw_def)
  have b: "frameRaw [f] g waveform filterCutoff time
       = Some (map (rawAt waveform filterCutoff time [f]) [0 ..< samples + 1])"
    by (simp add: frameRaw_def raw_def scopeFrequencies_def)
  have c: "drawWaveform cv [] f waveform filterCutoff time
       \<noteq> drawWaveform cv [f] g waveform filterCutoff time"
    by (simp add: drawWaveform_def grid_def)
  show ?thesis using a b c by blast
qed

text \<open>
  With the fallback \<open>220\<close> on the canvas of the page: the idle call fills no buffer, the
  call on the frequency \<open>220\<close> fills one, and the frames differ.
\<close>

theorem fallback_220_counterexample:
  "frameRaw [] 220 ''sawtooth'' 1000 0 = None
   \<and> frameRaw [220] 220 ''sawtooth'' 1000 0 \<noteq> None
   \<and> drawWaveform \<lparr>width = 600, height = 180\<rparr> [] 220 ''sawtooth'' 1000 0
       \<noteq> drawWaveform \<lparr>width = 600, height = 180\<rparr> [220] 220 ''sawtooth'' 1000 0"
  by (simp add: frameRaw_def drawWaveform_def grid_def)

text \<open>
  C10. With at least one active frequency, the raw buffer, the smoothed buffer and the
  whole drawn frame do not depend on the fallback frequency \<^verbatim>\<open>osc1Freq\<close>.
\<close>

theorem fallback_irrelevant_with_notes:
  assumes "activeNoteFrequencies \<noteq> []"
  shows "raw activeNoteFrequencies f1 waveform filterCutoff time
           = raw activeNoteFrequencies f2 waveform filterCutoff time
       \<and> smoothed (raw activeNoteFrequencies f1 waveform filterCutoff time)
           = smoothed (raw activeNoteFrequencies f2 waveform filterCutoff time)
       \<and> drawWaveform cv activeNoteFrequencies f1 waveform filterCutoff time
           = drawWaveform cv activeNoteFrequencies f2 waveform filterCutoff time"
proof -
  have "scopeFrequencies activeNoteFrequencies f1 = scopeFrequencies activeNoteFrequencies f2"
    using assms by (simp add: scopeFrequencies_def)
  then have "raw activeNoteFrequencies f1 waveform filterCutoff time
           = raw activeNoteFrequencies f2 waveform filterCutoff time"
    by (simp add: raw_def)
  then show ?thesis by (simp add: drawWaveform_def)
qed

theorem fallback_irrelevant_with_notes_witness:
  "[440] \<noteq> ([]::real list)
   \<and> raw [440] 220 ''sawtooth'' 1000 0 = raw [440] 880 ''sawtooth'' 1000 0
   \<and> smoothed (raw [440] 220 ''sawtooth'' 1000 0) = smoothed (raw [440] 880 ''sawtooth'' 1000 0)
   \<and> drawWaveform \<lparr>width = 600, height = 180\<rparr> [440] 220 ''sawtooth'' 1000 0
       = drawWaveform \<lparr>width = 600, height = 180\<rparr> [440] 880 ''sawtooth'' 1000 0"
proof -
  have h: "[440] \<noteq> ([]::real list)" by simp
  show ?thesis
    using h fallback_irrelevant_with_notes [OF h, of 220 "''sawtooth''" 1000 0 880 "\<lparr>width = 600, height = 180\<rparr>"]
    by blast
qed

subsection \<open>Idle frames\<close>

text \<open>
  C1, as the code has it. On a frame with no active frequency, the renderer clears the
  surface, fills it with the background colour \<^verbatim>\<open>#1a1a1a\<close> and returns: it draws
  neither grid nor curve, and the frame does not depend on the fallback \<^verbatim>\<open>osc1Freq\<close>.
  The substitution of line 78 is only reached with an active frequency.
\<close>

theorem idle_frame_is_blank:
  "drawWaveform cv [] osc1Freq waveform filterCutoff time =
     [ClearRect 0 0 (real (width cv)) (real (height cv)),
      FillStyle ''#1a1a1a'',
      FillRect 0 0 (real (width cv)) (real (height cv))]"
  by (simp add: drawWaveform_def)

text \<open>
  The idle frame on the 600 by 180 canvas of the page, with the initial state of the
  component: a flat background, and not the frame that the frequency 440 would give.
\<close>

theorem idle_frame_counterexample:
  "drawWaveform \<lparr>width = 600, height = 180\<rparr> [] 440 ''sawtooth'' 1000 0 =
     [ClearRect 0 0 600 180, FillStyle ''#1a1a1a'', FillRect 0 0 600 180]
   \<and> drawWaveform \<lparr>width = 600, height = 180\<rparr> [] 440 ''sawtooth'' 1000 0
       \<noteq> drawWaveform \<lparr>width = 600, height = 180\<rparr> [440] 440 ''sawtooth'' 1000 0"
  by (simp add: drawWaveform_def grid_def)

lemma request_not_in_grid: "RequestAnimationFrame \<notin> set (grid cv)"
  by (auto simp: grid_def gridLine_def Let_def simp del: upt_Suc)

lemma request_not_in_curve: "RequestAnimationFrame \<notin> set (curve cv sm)"
  by (auto simp: curve_def segment_def Let_def simp del: upt_Suc)

text \<open>
  C2, as the code has it. A call of the draw callback requests the next animation frame
  exactly once, as its last effect, when at least one note is active; with no active
  note it returns at line 50 and requests none, so the chain of frames also ends on the
  first idle frame (the effect hook starts it again when the notes change).
\<close>

theorem reschedule_iff_notes_active:
  "count_list (drawWaveform cv activeNoteFrequencies osc1Freq waveform filterCutoff time)
       RequestAnimationFrame
     = (if activeNoteFrequencies = [] then 0 else 1)
   \<and> (activeNoteFrequencies \<noteq> [] \<longrightarrow>
        last (drawWaveform cv activeNoteFrequencies osc1Freq waveform filterCutoff time)
          = RequestAnimationFrame)"
proof -
  have g: "count_list (grid cv) RequestAnimationFrame = 0"
    using request_not_in_grid by (simp add: count_list_0_iff)
  have c: "count_list (curve cv sm) RequestAnimationFrame = 0" for sm
    using request_not_in_curve by (simp add: count_list_0_iff)
  show ?thesis
    by (simp add: drawWaveform_def g c)
qed

theorem reschedule_iff_notes_active_witness:
  "[440] \<noteq> ([]::real list)
   \<and> last (drawWaveform \<lparr>width = 600, height = 180\<rparr> [440] 440 ''sawtooth'' 1000 0)
        = RequestAnimationFrame
   \<and> count_list (drawWaveform \<lparr>width = 600, height = 180\<rparr> [440] 440 ''sawtooth'' 1000 0)
        RequestAnimationFrame = 1"
  using reschedule_iff_notes_active [of "\<lparr>width = 600, height = 180\<rparr>" "[440]" 440 "''sawtooth''" 1000 0]
  by simp

text \<open>
  An idle frame requests no further frame.
\<close>

theorem idle_frame_not_rescheduled_counterexample:
  "RequestAnimationFrame \<notin> set (drawWaveform \<lparr>width = 600, height = 180\<rparr> [] 440 ''sawtooth'' 1000 0)"
  by (simp add: drawWaveform_def)


subsection \<open>The vertical scale\<close>

lemma toCanvasY_range:
  assumes "- 1 \<le> s" and "s \<le> 1"
  shows "0.1 * real (height cv) \<le> toCanvasY cv s"
    and "toCanvasY cv s \<le> 0.9 * real (height cv)"
proof -
  define h where "h = real (height cv)"
  define p where "p = s * h"
  have h: "0 \<le> h" by (simp add: h_def)
  have e: "toCanvasY cv s = h / 2 + 0.4 * p"
    by (simp add: toCanvasY_def h_def p_def)
  have "s * h \<le> 1 * h" using assms(2) h by (rule mult_right_mono)
  then have u: "p \<le> h" by (simp add: p_def)
  have "(- 1) * h \<le> s * h" using assms(1) h by (rule mult_right_mono)
  then have l: "- h \<le> p" by (simp add: p_def)
  show "0.1 * real (height cv) \<le> toCanvasY cv s"
    unfolding e h_def [symmetric] using l by linarith
  show "toCanvasY cv s \<le> 0.9 * real (height cv)"
    unfolding e h_def [symmetric] using u by linarith
qed

lemma curve_cases:
  assumes "e \<in> set (curve cv sm)"
  shows "e = MoveTo 0 (toCanvasY cv (sm ! 0))
       \<or> (\<exists>i. 1 \<le> i \<and> i < samples \<and> e = segment cv sm i)
       \<or> e = LineTo (real (width cv)) (toCanvasY cv (sm ! samples))
       \<or> e = Stroke"
  using assms by (auto simp: curve_def simp del: upt_Suc)

lemma curve_plotted_range:
  assumes len: "length sm = samples + 1"
    and rng: "\<forall>s \<in> set sm. - 1 \<le> s \<and> s \<le> 1"
    and e: "e \<in> set (curve cv sm)"
    and y: "y \<in> set (plottedYs e)"
  shows "0.1 * real (height cv) \<le> y \<and> y \<le> 0.9 * real (height cv)"
proof -
  have pt: "0.1 * real (height cv) \<le> toCanvasY cv (sm ! i)
          \<and> toCanvasY cv (sm ! i) \<le> 0.9 * real (height cv)" if "i \<le> samples" for i
  proof -
    have "sm ! i \<in> set sm" using that len by simp
    then have "- 1 \<le> sm ! i" and "sm ! i \<le> 1" using rng by simp_all
    then show ?thesis using toCanvasY_range by blast
  qed
  from curve_cases [OF e] consider
      "e = MoveTo 0 (toCanvasY cv (sm ! 0))"
    | i where "1 \<le> i" "i < samples" "e = segment cv sm i"
    | "e = LineTo (real (width cv)) (toCanvasY cv (sm ! samples))"
    | "e = Stroke"
    by blast
  then show ?thesis
  proof cases
    case 1
    then have "y = toCanvasY cv (sm ! 0)" using y by simp
    then show ?thesis using pt [of 0] by simp
  next
    case 2
    from 2(3) y have "y = toCanvasY cv (sm ! i)
        \<or> y = (toCanvasY cv (sm ! i) + toCanvasY cv (sm ! (i + 1))) / 2"
      by (simp add: segment_def Let_def)
    moreover note pt [of i] pt [of "i + 1"]
    moreover have "i \<le> samples" "i + 1 \<le> samples" using 2(2) by simp_all
    ultimately show ?thesis by auto
  next
    case 3
    then have "y = toCanvasY cv (sm ! samples)" using y by simp
    then show ?thesis using pt [of samples] by simp
  next
    case 4
    then show ?thesis using y by simp
  qed
qed

text \<open>
  C6. A smoothed value \<open>s\<close> is drawn at the height \<open>h / 2 + s * (h / 2) * 0.8\<close>, where
  \<open>h\<close> is the height of the canvas. For \<open>s\<close> between \<open>-1\<close> and \<open>1\<close> this lies between
  \<open>0.1 * h\<close> and \<open>0.9 * h\<close>; and when every smoothed value lies between \<open>-1\<close> and \<open>1\<close>,
  so does every vertical coordinate of the path of the curve, control points and
  midpoints included.
\<close>

theorem toCanvasY_margin:
  "toCanvasY cv s = real (height cv) / 2 + s * (real (height cv) / 2) * 0.8
   \<and> (- 1 \<le> s \<and> s \<le> 1 \<longrightarrow>
        0.1 * real (height cv) \<le> toCanvasY cv s \<and> toCanvasY cv s \<le> 0.9 * real (height cv))
   \<and> (length sm = samples + 1 \<and> (\<forall>v \<in> set sm. - 1 \<le> v \<and> v \<le> 1) \<longrightarrow>
        (\<forall>e \<in> set (curve cv sm). \<forall>y \<in> set (plottedYs e).
           0.1 * real (height cv) \<le> y \<and> y \<le> 0.9 * real (height cv)))"
proof -
  have a: "toCanvasY cv s = real (height cv) / 2 + s * (real (height cv) / 2) * 0.8"
    by (simp add: toCanvasY_def)
  show ?thesis
    using a toCanvasY_range [of s cv] curve_plotted_range [of sm _ cv] by blast
qed

theorem toCanvasY_margin_witness:
  "(- 1::real) \<le> 1 \<and> (1::real) \<le> 1
   \<and> toCanvasY \<lparr>width = 600, height = 180\<rparr> 1 = 162
   \<and> 0.1 * real (height \<lparr>width = 600, height = 180\<rparr>) \<le> toCanvasY \<lparr>width = 600, height = 180\<rparr> 1
   \<and> toCanvasY \<lparr>width = 600, height = 180\<rparr> 1 \<le> 0.9 * real (height \<lparr>width = 600, height = 180\<rparr>)
   \<and> length (replicate (samples + 1) (0::real)) = samples + 1
   \<and> (- 1::real) \<le> 0 \<and> (0::real) \<le> 1
   \<and> MoveTo 0 90 \<in> set (curve \<lparr>width = 600, height = 180\<rparr> (replicate (samples + 1) 0))
   \<and> 90 \<in> set (plottedYs (MoveTo 0 90))
   \<and> 0.1 * real (height \<lparr>width = 600, height = 180\<rparr>) \<le> 90
   \<and> 90 \<le> 0.9 * real (height \<lparr>width = 600, height = 180\<rparr>)"
proof -
  let ?cv = "\<lparr>width = 600, height = 180\<rparr>"
  let ?sm = "replicate (samples + 1) (0::real)"
  note t = toCanvasY_margin [of ?cv 1 ?sm]
  have h1: "(- 1::real) \<le> 1 \<and> (1::real) \<le> 1" by simp
  have h2: "length ?sm = samples + 1 \<and> (\<forall>v \<in> set ?sm. - 1 \<le> v \<and> v \<le> 1)" by simp
  have v: "toCanvasY ?cv 1 = 162" using t by simp
  have m: "MoveTo 0 90 \<in> set (curve ?cv ?sm)"
    by (simp add: curve_def toCanvasY_def)
  have p: "90 \<in> set (plottedYs (MoveTo 0 90))" by simp
  from t h2 have "\<forall>e \<in> set (curve ?cv ?sm). \<forall>y \<in> set (plottedYs e).
           0.1 * real (height ?cv) \<le> y \<and> y \<le> 0.9 * real (height ?cv)" by blast
  with m p have b: "0.1 * real (height ?cv) \<le> 90 \<and> 90 \<le> 0.9 * real (height ?cv)" by blast
  from t h1 have c: "0.1 * real (height ?cv) \<le> toCanvasY ?cv 1
        \<and> toCanvasY ?cv 1 \<le> 0.9 * real (height ?cv)" by blast
  have h3: "(- 1::real) \<le> 0 \<and> (0::real) \<le> 1" by simp
  show ?thesis using h1 h2 h3 v m p b c by blast
qed


end
